theory Spec2Isabelle
  imports Main "HOL-Library.Sublist" "HOL-Library.AList"
begin

section \<open>Decoded JSON values and the Python operations the client applies to them\<close>

text \<open>
  The client never parses JSON itself: it calls \<^verbatim>\<open>response.json()\<close> and works on the
  decoded Python value. A decoded value is \<^verbatim>\<open>None\<close>, a \<^verbatim>\<open>bool\<close>, an \<^verbatim>\<open>int\<close>, a
  \<^verbatim>\<open>float\<close>, a \<^verbatim>\<open>str\<close>, a \<^verbatim>\<open>list\<close> or a \<^verbatim>\<open>dict\<close> with string keys. The client
  never computes with a float (it only tests \<^verbatim>\<open>isinstance\<close> and hands the value on), so
  a float is kept as its literal. A dict is an association list read with \<open>map_of\<close>.
\<close>

datatype jvalue =
    JNull
  | JBool bool
  | JInt int
  | JFloat string
  | JStr string
  | JList "jvalue list"
  | JObj "(string \<times> jvalue) list"

text \<open>
  An f-string is kept as the list of its literal pieces and interpolated values, in order:
  \<^verbatim>\<open>f"HTTP {status}"\<close> is \<open>[Lit ''HTTP '', Fmt (JInt status)]\<close>. Interpolating a
  string that was itself built by an f-string is the concatenation of the two lists.
\<close>

datatype piece = Lit string | Fmt jvalue

type_synonym message = "piece list"

text \<open>
  The exceptions the client can leave with. \<open>JSONDecodeError\<close> and \<open>RequestException\<close>
  carry their text; \<open>JSONDecodeError\<close> is the one of \<^verbatim>\<open>requests\<close> (2.27 and later), a
  subclass of \<^verbatim>\<open>RequestException\<close>.
\<close>

datatype error =
    ValueError message
  | TypeError
  | AttributeError
  | KeyError
  | JSONDecodeError string
  | RequestException string

definition and_then :: "error + 'a \<Rightarrow> ('a \<Rightarrow> error + 'b) \<Rightarrow> error + 'b" where
  "and_then m f = (case m of Inl e \<Rightarrow> Inl e | Inr v \<Rightarrow> f v)"

text \<open>\<^verbatim>\<open>isinstance(v, int)\<close>: Python's \<^verbatim>\<open>bool\<close> is a subclass of \<^verbatim>\<open>int\<close>.\<close>

fun isinstance_int :: "jvalue \<Rightarrow> bool" where
  "isinstance_int (JInt n) = True"
| "isinstance_int (JBool b) = True"
| "isinstance_int v = False"

fun isinstance_str :: "jvalue \<Rightarrow> bool" where
  "isinstance_str (JStr s) = True"
| "isinstance_str v = False"

fun isinstance_list :: "jvalue \<Rightarrow> bool" where
  "isinstance_list (JList xs) = True"
| "isinstance_list v = False"

text \<open>
  \<^verbatim>\<open>key in v\<close> for a string \<open>key\<close>: key membership on a dict, element membership on
  a list, substring test on a string, and \<^verbatim>\<open>TypeError\<close> on anything else.
\<close>

fun py_in :: "string \<Rightarrow> jvalue \<Rightarrow> error + bool" where
  "py_in k (JObj kvs) = Inr (map_of kvs k \<noteq> None)"
| "py_in k (JList xs) = Inr (JStr k \<in> set xs)"
| "py_in k (JStr s) = Inr (sublist k s)"
| "py_in k v = Inl TypeError"

text \<open>\<^verbatim>\<open>v[key]\<close> for a string \<open>key\<close>: only a dict can be subscripted by a string.\<close>

fun py_getitem :: "jvalue \<Rightarrow> string \<Rightarrow> error + jvalue" where
  "py_getitem (JObj kvs) k = (case map_of kvs k of None \<Rightarrow> Inl KeyError | Some v \<Rightarrow> Inr v)"
| "py_getitem v k = Inl TypeError"

text \<open>\<^verbatim>\<open>v.get(key, default)\<close>: only a dict has the method.\<close>

fun py_get :: "jvalue \<Rightarrow> string \<Rightarrow> jvalue \<Rightarrow> error + jvalue" where
  "py_get (JObj kvs) k d = Inr (case map_of kvs k of None \<Rightarrow> d | Some v \<Rightarrow> v)"
| "py_get v k d = Inl AttributeError"

subsection \<open>The text of a message\<close>

definition digit_char :: "nat \<Rightarrow> char" where
  "digit_char n = ''0123456789'' ! (n mod 10)"

fun str_nat :: "nat \<Rightarrow> string" where
  "str_nat n = (if n < 10 then [digit_char n] else str_nat (n div 10) @ [digit_char n])"

declare str_nat.simps [simp del]

definition str_int :: "int \<Rightarrow> string" where
  "str_int i = (if i < 0 then CHR ''-'' # str_nat (nat (- i)) else str_nat (nat i))"

text \<open>
  \<^verbatim>\<open>str(v)\<close> as an f-string applies it, for the values whose text does not depend on
  Python's \<^verbatim>\<open>repr\<close> of strings and floats; \<open>None\<close> on the others.
\<close>

fun py_str :: "jvalue \<Rightarrow> string option" where
  "py_str (JStr s) = Some s"
| "py_str (JInt i) = Some (str_int i)"
| "py_str (JBool b) = Some (if b then ''True'' else ''False'')"
| "py_str JNull = Some ''None''"
| "py_str v = None"

fun render :: "message \<Rightarrow> string option" where
  "render [] = Some []"
| "render (Lit s # ps) = map_option ((@) s) (render ps)"
| "render (Fmt v # ps) =
     (case py_str v of None \<Rightarrow> None | Some s \<Rightarrow> map_option ((@) s) (render ps))"

section \<open>The HTTP exchange\<close>

text \<open>
  What the client sees of a \<^verbatim>\<open>requests.Response\<close>: the status code and the outcome of
  \<^verbatim>\<open>response.json()\<close>, which is the decoded value or, for an empty or malformed body,
  the decoder's error text.
\<close>

record response =
  status_code :: int
  json :: "string + jvalue"

text \<open>\<^verbatim>\<open>requests.get\<close> / \<^verbatim>\<open>requests.post\<close> either raise a transport error or respond.\<close>

datatype http = Fails string | Responds response

definition response_json :: "response \<Rightarrow> error + jvalue" where
  "response_json r = (case json r of Inl s \<Rightarrow> Inl (JSONDecodeError s) | Inr v \<Rightarrow> Inr v)"

text \<open>
  The handler \<^verbatim>\<open>except requests.exceptions.RequestException as e\<close> around the body of
  fetch_polls, vote_on_poll and get_poll_results: it re-raises transport and decoding
  errors with the prefix \<^verbatim>\<open>Request failed: \<close> and lets every other exception through.
\<close>

fun reraise :: "error + 'a \<Rightarrow> error + 'a" where
  "reraise (Inl (RequestException s)) = Inl (RequestException (''Request failed: '' @ s))"
| "reraise (Inl (JSONDecodeError s)) = Inl (RequestException (''Request failed: '' @ s))"
| "reraise r = r"

text \<open>
  The inner \<^verbatim>\<open>try: ... except:\<close> of the three non-200 branches: the detail of the error
  body, or \<^verbatim>\<open>f"HTTP {response.status_code}"\<close> when anything at all goes wrong.
\<close>

definition error_message :: "response \<Rightarrow> message" where
  "error_message r =
     (case and_then (response_json r) (\<lambda>error_data. py_get error_data ''detail'' (JStr ''Unknown error'')) of
        Inl e \<Rightarrow> [Lit ''HTTP '', Fmt (JInt (status_code r))]
      | Inr d \<Rightarrow> [Fmt d])"

text \<open>The loop \<^verbatim>\<open>for field in fields: if field not in obj: raise ValueError(msg(field))\<close>.\<close>

fun require_fields :: "(string \<Rightarrow> message) \<Rightarrow> jvalue \<Rightarrow> string list \<Rightarrow> error + unit" where
  "require_fields msg obj [] = Inr ()"
| "require_fields msg obj (field # rest) =
     and_then (py_in field obj) (\<lambda>present.
       if \<not> present then Inl (ValueError (msg field)) else require_fields msg obj rest)"

section \<open>register_user.py\<close>

text \<open>
  register_user has no handler of its own: a transport error, a decoding error and the
  errors of \<^verbatim>\<open>error_data.get\<close> and of \<^verbatim>\<open>in\<close> leave it as they are. The test
  \<^verbatim>\<open>status == 400 and ... in error_data.get("detail", "")\<close> evaluates its right side
  only on status 400.
\<close>

definition register_user :: "http \<Rightarrow> error + jvalue" where
  "register_user h =
     (case h of
        Fails s \<Rightarrow> Inl (RequestException s)
      | Responds r \<Rightarrow>
          if status_code r = 200 then response_json r
          else
            and_then (response_json r) (\<lambda>error_data.
            and_then (if status_code r = 400
                      then and_then (py_get error_data ''detail'' (JStr []))
                             (py_in ''Username already registered'')
                      else Inr False) (\<lambda>duplicate.
              if duplicate then Inl (ValueError [Lit ''Username already registered''])
              else
                and_then (py_get error_data ''detail'' (JStr ''Unknown error'')) (\<lambda>detail.
                  Inl (ValueError [Lit ''Registration failed: '', Fmt detail])))))"

section \<open>fetch_polls.py\<close>

definition fetch_polls :: "http \<Rightarrow> error + jvalue list" where
  "fetch_polls h =
     reraise
       (case h of
          Fails s \<Rightarrow> Inl (RequestException s)
        | Responds r \<Rightarrow>
            if status_code r = 200 then
              and_then (response_json r) (\<lambda>polls_data.
                case polls_data of
                  JList polls \<Rightarrow> Inr polls
                | _ \<Rightarrow> Inl (ValueError [Lit ''Expected a list of polls in the response'']))
            else Inl (ValueError (Lit ''Failed to fetch polls: '' # error_message r)))"

definition required_fields :: "string list" where
  "required_fields = [''id'', ''question'', ''created_at'', ''owner_id'', ''options'']"

definition option_required_fields :: "string list" where
  "option_required_fields = [''id'', ''text'', ''poll_id'']"

text \<open>The inner loop \<^verbatim>\<open>for j, option in enumerate(poll["options"])\<close>, from index \<open>j\<close> on.\<close>

fun validate_options :: "nat \<Rightarrow> nat \<Rightarrow> jvalue list \<Rightarrow> error + unit" where
  "validate_options i j [] = Inr ()"
| "validate_options i j (option # rest) =
     and_then
       (require_fields
          (\<lambda>field. [Lit ''Poll '', Fmt (JInt (int i)), Lit '', option '', Fmt (JInt (int j)),
                    Lit '' is missing required field: '', Fmt (JStr field)])
          option option_required_fields)
       (\<lambda>_. validate_options i (Suc j) rest)"

text \<open>The body of the outer loop, for the poll at index \<open>i\<close>.\<close>

definition validate_poll :: "nat \<Rightarrow> jvalue \<Rightarrow> error + unit" where
  "validate_poll i poll =
     and_then
       (require_fields
          (\<lambda>field. [Lit ''Poll at index '', Fmt (JInt (int i)),
                    Lit '' is missing required field: '', Fmt (JStr field)])
          poll required_fields) (\<lambda>_.
     and_then (py_getitem poll ''id'') (\<lambda>v.
       if \<not> isinstance_int v
       then Inl (ValueError [Lit ''Poll at index '', Fmt (JInt (int i)),
                             Lit '': 'id' must be an integer''])
       else
     and_then (py_getitem poll ''question'') (\<lambda>v.
       if \<not> isinstance_str v
       then Inl (ValueError [Lit ''Poll at index '', Fmt (JInt (int i)),
                             Lit '': 'question' must be a string''])
       else
     and_then (py_getitem poll ''owner_id'') (\<lambda>v.
       if \<not> isinstance_int v
       then Inl (ValueError [Lit ''Poll at index '', Fmt (JInt (int i)),
                             Lit '': 'owner_id' must be an integer''])
       else
     and_then (py_getitem poll ''options'') (\<lambda>v.
       case v of
         JList options \<Rightarrow> validate_options i 0 options
       | _ \<Rightarrow> Inl (ValueError [Lit ''Poll at index '', Fmt (JInt (int i)),
                                 Lit '': 'options' must be a list'']))))))"

text \<open>The outer loop \<^verbatim>\<open>for i, poll in enumerate(polls)\<close>, from index \<open>i\<close> on.\<close>

fun validate_polls :: "nat \<Rightarrow> jvalue list \<Rightarrow> error + unit" where
  "validate_polls i [] = Inr ()"
| "validate_polls i (poll # rest) =
     and_then (validate_poll i poll) (\<lambda>_. validate_polls (Suc i) rest)"

definition fetch_polls_with_validation :: "http \<Rightarrow> error + jvalue list" where
  "fetch_polls_with_validation h =
     and_then (fetch_polls h) (\<lambda>polls.
     and_then (validate_polls 0 polls) (\<lambda>_. Inr polls))"

section \<open>poll_client.py\<close>

definition vote_required_fields :: "string list" where
  "vote_required_fields = [''id'', ''user_id'', ''option_id'', ''created_at'']"

definition vote_on_poll :: "http \<Rightarrow> error + jvalue" where
  "vote_on_poll h =
     reraise
       (case h of
          Fails s \<Rightarrow> Inl (RequestException s)
        | Responds r \<Rightarrow>
            if status_code r = 200 then
              and_then (response_json r) (\<lambda>vote_data.
              and_then
                (require_fields
                   (\<lambda>field. [Lit ''Invalid response: missing field '', Lit [CHR 0x27],
                             Fmt (JStr field), Lit [CHR 0x27]])
                   vote_data vote_required_fields) (\<lambda>_.
                Inr vote_data))
            else
              let error_message = error_message r in
              if status_code r = 401
              then Inl (ValueError [Lit ''Unauthorized: Invalid or expired access token''])
              else if status_code r = 404
              then Inl (ValueError [Lit ''Poll or option not found''])
              else Inl (ValueError (Lit ''Failed to vote on poll: '' # error_message)))"

definition results_required_fields :: "string list" where
  "results_required_fields = [''poll_id'', ''question'', ''results'']"

definition result_required_fields :: "string list" where
  "result_required_fields = [''option_id'', ''text'', ''vote_count'']"

text \<open>The loop \<^verbatim>\<open>for i, result in enumerate(results_data["results"])\<close>, from index \<open>i\<close> on.\<close>

fun validate_results :: "nat \<Rightarrow> jvalue list \<Rightarrow> error + unit" where
  "validate_results i [] = Inr ()"
| "validate_results i (result # rest) =
     and_then
       (require_fields
          (\<lambda>field. [Lit ''Invalid response: result '', Fmt (JInt (int i)),
                    Lit '' missing field '', Lit [CHR 0x27], Fmt (JStr field), Lit [CHR 0x27]])
          result result_required_fields) (\<lambda>_.
     and_then (py_getitem result ''option_id'') (\<lambda>v.
       if \<not> isinstance_int v
       then Inl (ValueError [Lit ''Invalid response: result '', Fmt (JInt (int i)),
                             Lit '' 'option_id' must be integer''])
       else
     and_then (py_getitem result ''text'') (\<lambda>v.
       if \<not> isinstance_str v
       then Inl (ValueError [Lit ''Invalid response: result '', Fmt (JInt (int i)),
                             Lit '' 'text' must be string''])
       else
     and_then (py_getitem result ''vote_count'') (\<lambda>v.
       if \<not> isinstance_int v
       then Inl (ValueError [Lit ''Invalid response: result '', Fmt (JInt (int i)),
                             Lit '' 'vote_count' must be integer''])
       else validate_results (Suc i) rest))))"

definition get_poll_results :: "http \<Rightarrow> error + jvalue" where
  "get_poll_results h =
     reraise
       (case h of
          Fails s \<Rightarrow> Inl (RequestException s)
        | Responds r \<Rightarrow>
            if status_code r = 200 then
              and_then (response_json r) (\<lambda>results_data.
              and_then
                (require_fields
                   (\<lambda>field. [Lit ''Invalid response: missing field '', Lit [CHR 0x27],
                             Fmt (JStr field), Lit [CHR 0x27]])
                   results_data results_required_fields) (\<lambda>_.
              and_then (py_getitem results_data ''results'') (\<lambda>v.
                case v of
                  JList results \<Rightarrow> and_then (validate_results 0 results) (\<lambda>_. Inr results_data)
                | _ \<Rightarrow> Inl (ValueError [Lit ''Invalid response: 'results' must be a list'']))))
            else
              let error_message = error_message r in
              if status_code r = 404
              then Inl (ValueError [Lit ''Poll not found''])
              else Inl (ValueError (Lit ''Failed to get poll results: '' # error_message)))"

section \<open>Vocabulary of the specification\<close>

text \<open>An HTTP 200 response whose body decodes to \<open>v\<close>.\<close>

definition ok :: "jvalue \<Rightarrow> http" where
  "ok v = Responds \<lparr>status_code = 200, json = Inr v\<rparr>"

text \<open>The field is present and its value has the type that the test \<open>t\<close> recognises.\<close>

fun has_type :: "(jvalue \<Rightarrow> bool) \<Rightarrow> jvalue option \<Rightarrow> bool" where
  "has_type t (Some v) = t v"
| "has_type t None = False"

text \<open>
  A well-formed option is an object containing id, text and poll_id. A well-formed poll is
  an object with an integer id, a string question, a created_at of any kind, an integer
  owner_id and a list of well-formed options. Integer is meant as Python means it, so a
  Boolean counts as one.
\<close>

fun wf_option :: "jvalue \<Rightarrow> bool" where
  "wf_option (JObj kvs) =
     (map_of kvs ''id'' \<noteq> None \<and> map_of kvs ''text'' \<noteq> None \<and> map_of kvs ''poll_id'' \<noteq> None)"
| "wf_option v = False"

fun wf_options :: "jvalue option \<Rightarrow> bool" where
  "wf_options (Some (JList options)) = list_all wf_option options"
| "wf_options v = False"

fun wf_poll :: "jvalue \<Rightarrow> bool" where
  "wf_poll (JObj kvs) =
     (has_type isinstance_int (map_of kvs ''id'') \<and>
      has_type isinstance_str (map_of kvs ''question'') \<and>
      map_of kvs ''created_at'' \<noteq> None \<and>
      has_type isinstance_int (map_of kvs ''owner_id'') \<and>
      wf_options (map_of kvs ''options''))"
| "wf_poll v = False"


text \<open>
  The first violation inside one object, as the specification orders the checks: the
  first missing field of the required ones, and only when none is missing the first field
  of the typed ones whose value has the wrong type. \<open>Mistyped f n\<close> names the field and
  the type the message asks for.
\<close>

datatype violation = Missing string | Mistyped string string

definition first_missing :: "string list \<Rightarrow> (string \<times> jvalue) list \<Rightarrow> string option" where
  "first_missing fs kvs = find (\<lambda>f. map_of kvs f = None) fs"

definition first_mistyped ::
  "(string \<times> (jvalue \<Rightarrow> bool) \<times> string) list \<Rightarrow> (string \<times> jvalue) list \<Rightarrow> violation option" where
  "first_mistyped checks kvs =
     map_option (\<lambda>(f, t, n). Mistyped f n) (find (\<lambda>(f, t, n). \<not> has_type t (map_of kvs f)) checks)"

definition first_violation ::
  "string list \<Rightarrow> (string \<times> (jvalue \<Rightarrow> bool) \<times> string) list \<Rightarrow> (string \<times> jvalue) list \<Rightarrow> violation option" where
  "first_violation fs checks kvs =
     (case first_missing fs kvs of
        Some f \<Rightarrow> Some (Missing f)
      | None \<Rightarrow> first_mistyped checks kvs)"

definition poll_violation :: "(string \<times> jvalue) list \<Rightarrow> violation option" where
  "poll_violation =
     first_violation [''id'', ''question'', ''created_at'', ''owner_id'', ''options'']
       [(''id'', isinstance_int, ''an integer''), (''question'', isinstance_str, ''a string''),
        (''owner_id'', isinstance_int, ''an integer''), (''options'', isinstance_list, ''a list'')]"


definition option_violation_text :: "nat \<Rightarrow> nat \<Rightarrow> string \<Rightarrow> string" where
  "option_violation_text i j f =
     ''Poll '' @ str_nat i @ '', option '' @ str_nat j @ '' is missing required field: '' @ f"



text \<open>The same poll with its created_at set to \<open>v\<close>; anything but an object is left alone.\<close>

fun with_created_at :: "jvalue \<Rightarrow> jvalue \<Rightarrow> jvalue" where
  "with_created_at v (JObj kvs) = JObj (AList.update ''created_at'' v kvs)"
| "with_created_at v p = p"

fun created_at_of :: "jvalue \<Rightarrow> jvalue option" where
  "created_at_of (JObj kvs) = map_of kvs ''created_at''"
| "created_at_of v = None"

text \<open>
  The operation failed with a \<^verbatim>\<open>ValueError\<close> whose message reads \<open>t\<close>; and: it failed
  with a \<^verbatim>\<open>ValueError\<close> whose message contains the decimal status code \<open>sc\<close>.
\<close>

definition fails_with_text :: "error + 'a \<Rightarrow> string \<Rightarrow> bool" where
  "fails_with_text r t = (case r of Inl (ValueError m) \<Rightarrow> render m = Some t | _ \<Rightarrow> False)"

definition names_status :: "error + 'a \<Rightarrow> int \<Rightarrow> bool" where
  "names_status r sc =
     (case r of
        Inl (ValueError m) \<Rightarrow> (case render m of Some t \<Rightarrow> sublist (str_int sc) t | None \<Rightarrow> False)
      | _ \<Rightarrow> False)"

text \<open>Sample data for the concrete instances below.\<close>

definition sample_option :: jvalue where
  "sample_option = JObj [(''id'', JInt 3), (''text'', JStr ''Yes''), (''poll_id'', JInt 1)]"

definition sample_poll :: jvalue where
  "sample_poll =
     JObj [(''id'', JInt 1), (''question'', JStr ''Tea?''), (''created_at'', JStr ''2024-01-01''),
           (''owner_id'', JInt 7), (''options'', JList [sample_option])]"


section \<open>Basic facts\<close>

lemma and_then_Inr [simp]: "and_then (Inr v) f = f v"
  by (simp add: and_then_def)

lemma and_then_Inl [simp]: "and_then (Inl e) f = Inl e"
  by (simp add: and_then_def)

lemma isinstance_int_bool: "isinstance_int (JBool b)"
  by simp

lemma str_int_nat [simp]: "str_int (int i) = str_nat i"
  by (simp add: str_int_def)

lemma fails_with_textI:
  "r = Inl (ValueError m) \<Longrightarrow> render m = Some t \<Longrightarrow> fails_with_text r t"
  by (simp add: fails_with_text_def)

lemma names_statusI:
  "r = Inl (ValueError m) \<Longrightarrow> render m = Some (p @ str_int sc) \<Longrightarrow> names_status r sc"
  by (simp add: names_status_def)

lemma fetch_polls_ok: "fetch_polls (ok (JList polls)) = Inr polls"
  by (simp add: fetch_polls_def ok_def response_json_def)

lemma error_message_undecodable:
  "json r = Inl s \<Longrightarrow> error_message r = [Lit ''HTTP '', Fmt (JInt (status_code r))]"
  by (simp add: error_message_def response_json_def)

subsection \<open>The presence loop\<close>

lemma require_fields_present:
  "\<forall>f \<in> set fs. map_of kvs f \<noteq> None \<Longrightarrow> require_fields msg (JObj kvs) fs = Inr ()"
  by (induction fs) auto

lemma require_fields_first_missing:
  "first_missing fs kvs = Some f \<Longrightarrow> require_fields msg (JObj kvs) fs = Inl (ValueError (msg f))"
  unfolding first_missing_def by (induction fs) (auto split: if_splits)

lemma require_fields_none_missing:
  "first_missing fs kvs = None \<Longrightarrow> require_fields msg (JObj kvs) fs = Inr ()"
  unfolding first_missing_def by (induction fs) (auto split: if_splits)

lemma first_missing_NoneD:
  "first_missing fs kvs = None \<Longrightarrow> f \<in> set fs \<Longrightarrow> \<exists>v. map_of kvs f = Some v"
  unfolding first_missing_def by (auto simp: find_None_iff)

lemma require_fields_wf_option:
  "wf_option opt \<Longrightarrow> require_fields msg opt option_required_fields = Inr ()"
  by (cases opt) (simp_all add: require_fields_present option_required_fields_def)

subsection \<open>What the violation of a poll says\<close>

lemma poll_violation_None_iff:
  "poll_violation kvs = None \<longleftrightarrow>
     has_type isinstance_int (map_of kvs ''id'') \<and> has_type isinstance_str (map_of kvs ''question'') \<and>
     map_of kvs ''created_at'' \<noteq> None \<and> has_type isinstance_int (map_of kvs ''owner_id'') \<and>
     has_type isinstance_list (map_of kvs ''options'')"
  by (cases "map_of kvs ''id''"; cases "map_of kvs ''question''"; cases "map_of kvs ''created_at''";
      cases "map_of kvs ''owner_id''"; cases "map_of kvs ''options''")
    (simp_all add: poll_violation_def first_violation_def first_missing_def first_mistyped_def)

lemma poll_violation_Missing:
  "poll_violation kvs = Some (Missing f) \<Longrightarrow> f \<in> set required_fields \<and> map_of kvs f = None"
  by (auto simp: poll_violation_def first_violation_def first_missing_def first_mistyped_def
      required_fields_def split: option.splits if_splits)

lemma poll_violation_Mistyped:
  "poll_violation kvs = Some (Mistyped f n) \<Longrightarrow>
   (\<forall>g \<in> set required_fields. map_of kvs g \<noteq> None) \<and>
   (f, n) \<in> {(''id'', ''an integer''), (''question'', ''a string''), (''owner_id'', ''an integer''),
             (''options'', ''a list'')} \<and>
   (f = ''id'' \<or> f = ''owner_id'' \<longrightarrow> \<not> has_type isinstance_int (map_of kvs f)) \<and>
   (f = ''question'' \<longrightarrow> \<not> has_type isinstance_str (map_of kvs f)) \<and>
   (f = ''options'' \<longrightarrow> \<not> has_type isinstance_list (map_of kvs f))"
  by (auto simp: poll_violation_def first_violation_def first_missing_def first_mistyped_def
      required_fields_def split: option.splits if_splits)

lemma wf_poll_iff:
  "wf_poll (JObj kvs) \<longleftrightarrow> poll_violation kvs = None \<and> wf_options (map_of kvs ''options'')"
proof (cases "map_of kvs ''options''")
  case None
  then show ?thesis by (simp add: poll_violation_None_iff)
next
  case (Some v)
  then show ?thesis by (cases v) (auto simp: poll_violation_None_iff)
qed

section \<open>Well-formed poll lists pass validation\<close>

lemma validate_options_wf:
  "list_all wf_option options \<Longrightarrow> validate_options i j options = Inr ()"
  by (induction options arbitrary: j) (simp_all add: require_fields_wf_option)

lemma wf_poll_fields:
  assumes "wf_poll poll"
  obtains kvs a b c d os where "poll = JObj kvs"
    "map_of kvs ''id'' = Some a" "map_of kvs ''question'' = Some b"
    "map_of kvs ''created_at'' = Some c" "map_of kvs ''owner_id'' = Some d"
    "map_of kvs ''options'' = Some (JList os)"
    "isinstance_int a" "isinstance_str b" "isinstance_int d" "list_all wf_option os"
proof -
  from assms obtain kvs where poll: "poll = JObj kvs"
    by (cases poll) auto
  from assms poll obtain a b c d v where
    vals: "map_of kvs ''id'' = Some a" "map_of kvs ''question'' = Some b"
      "map_of kvs ''created_at'' = Some c" "map_of kvs ''owner_id'' = Some d"
      "map_of kvs ''options'' = Some v"
    by (cases "map_of kvs ''id''"; cases "map_of kvs ''question''";
        cases "map_of kvs ''owner_id''"; cases "map_of kvs ''options''") auto
  with assms poll obtain os where "v = JList os"
    by (cases v) auto
  with assms poll vals that show thesis
    by auto
qed

lemma validate_poll_wf: "wf_poll poll \<Longrightarrow> validate_poll i poll = Inr ()"
proof (erule wf_poll_fields)
  fix kvs a b c d os
  assume poll: "poll = JObj kvs"
    and vals: "map_of kvs ''id'' = Some a" "map_of kvs ''question'' = Some b"
      "map_of kvs ''created_at'' = Some c" "map_of kvs ''owner_id'' = Some d"
      "map_of kvs ''options'' = Some (JList os)"
    and tys: "isinstance_int a" "isinstance_str b" "isinstance_int d" "list_all wf_option os"
  have "require_fields msg (JObj kvs) required_fields = Inr ()" for msg
    by (intro require_fields_present) (auto simp: required_fields_def vals)
  with vals tys poll show ?thesis
    by (simp add: validate_poll_def validate_options_wf)
qed

lemma validate_polls_wf: "list_all wf_poll polls \<Longrightarrow> validate_polls i polls = Inr ()"
  by (induction polls arbitrary: i) (auto simp: validate_poll_wf)

lemma wf_sample_poll: "wf_poll sample_poll"
  by (simp add: sample_poll_def sample_option_def)

text \<open>
  C1. On an HTTP 200 response whose body is a list of well-formed polls,
  fetch_polls_with_validation returns exactly that list: validation changes nothing.
\<close>

theorem valid_polls_round_trip:
  "list_all wf_poll polls \<Longrightarrow> fetch_polls_with_validation (ok (JList polls)) = Inr polls"
  by (simp add: fetch_polls_with_validation_def fetch_polls_ok validate_polls_wf)

theorem valid_polls_round_trip_witness:
  "list_all wf_poll [sample_poll, sample_poll] \<and>
   fetch_polls_with_validation (ok (JList [sample_poll, sample_poll])) = Inr [sample_poll, sample_poll]"
  using valid_polls_round_trip [of "[sample_poll, sample_poll]"] wf_sample_poll by simp

lemma wf_with_created_at: "wf_poll p \<Longrightarrow> wf_poll (with_created_at v p)"
  by (cases p) (simp_all add: update_conv')

lemma created_at_of_with: "wf_poll p \<Longrightarrow> created_at_of (with_created_at v p) = Some v"
  by (cases p) (simp_all add: update_conv')

text \<open>
  C9. The created_at field is never type-checked: take any list of well-formed polls and
  put any values whatsoever (integer, list, null, ...) under their created_at keys;
  fetch_polls_with_validation still succeeds, and each poll of the returned list carries
  under created_at the value that was put there.
\<close>

theorem created_at_unchecked:
  assumes "list_all wf_poll polls" and "length vs = length polls"
  shows "fetch_polls_with_validation (ok (JList (map2 with_created_at vs polls)))
           = Inr (map2 with_created_at vs polls) \<and>
         map created_at_of (map2 with_created_at vs polls) = map Some vs"
proof
  from assms(1) have "list_all wf_poll (map2 with_created_at vs polls)"
    by (auto simp: list_all_iff wf_with_created_at dest!: set_zip_rightD)
  then show "fetch_polls_with_validation (ok (JList (map2 with_created_at vs polls)))
           = Inr (map2 with_created_at vs polls)"
    by (simp add: fetch_polls_with_validation_def fetch_polls_ok validate_polls_wf)
  from assms(2,1) show "map created_at_of (map2 with_created_at vs polls) = map Some vs"
    by (induction vs polls rule: list_induct2) (simp_all add: created_at_of_with)
qed

theorem created_at_unchecked_witness:
  "fetch_polls_with_validation
     (ok (JList [with_created_at (JInt 5) sample_poll, with_created_at (JList [JNull]) sample_poll,
                 with_created_at JNull sample_poll]))
     = Inr [with_created_at (JInt 5) sample_poll, with_created_at (JList [JNull]) sample_poll,
            with_created_at JNull sample_poll] \<and>
   map created_at_of [with_created_at (JInt 5) sample_poll, with_created_at (JList [JNull]) sample_poll,
                      with_created_at JNull sample_poll]
     = [Some (JInt 5), Some (JList [JNull]), Some JNull]"
  using created_at_unchecked [of "[sample_poll, sample_poll, sample_poll]" "[JInt 5, JList [JNull], JNull]"]
    wf_sample_poll
  by simp

section \<open>Validation of the poll list fails fast\<close>


lemma validate_polls_fail_fast:
  "list_all wf_poll good \<Longrightarrow>
   validate_polls i (good @ bad # rest) =
     and_then (validate_poll (i + length good) bad) (\<lambda>_. validate_polls (Suc (i + length good)) rest)"
  by (induction good arbitrary: i) (auto simp: validate_poll_wf)




subsection \<open>Options\<close>

lemma validate_options_fail_fast:
  "list_all wf_option good \<Longrightarrow> first_missing option_required_fields okvs = Some f \<Longrightarrow>
   \<exists>m. validate_options i j (good @ JObj okvs # rest) = Inl (ValueError m) \<and>
       render m = Some (option_violation_text i (j + length good) f)"
proof (induction good arbitrary: j)
  case Nil
  then show ?case
    by (simp add: require_fields_first_missing option_violation_text_def)
next
  case (Cons opt good)
  from Cons.IH [of "Suc j"] Cons.prems obtain m where
    "validate_options i (Suc j) (good @ JObj okvs # rest) = Inl (ValueError m)"
    "render m = Some (option_violation_text i (Suc j + length good) f)"
    by auto
  with Cons.prems show ?case
    by (simp add: require_fields_wf_option)
qed

lemma validate_poll_options:
  assumes "poll_violation kvs = None" and "map_of kvs ''options'' = Some (JList os)"
  shows "validate_poll i (JObj kvs) = validate_options i 0 os"
proof -
  from assms(1) have none: "first_missing required_fields kvs = None"
    by (simp add: poll_violation_def first_violation_def required_fields_def split: option.splits)
  with assms(1) have mist:
    "first_mistyped [(''id'', isinstance_int, ''an integer''), (''question'', isinstance_str, ''a string''),
        (''owner_id'', isinstance_int, ''an integer''), (''options'', isinstance_list, ''a list'')] kvs = None"
    by (simp add: poll_violation_def first_violation_def required_fields_def)
  from first_missing_NoneD [OF none] obtain a b d where
    vals: "map_of kvs ''id'' = Some a" "map_of kvs ''question'' = Some b"
      "map_of kvs ''owner_id'' = Some d"
    unfolding required_fields_def by fastforce
  from mist vals assms(2) none show ?thesis
    by (auto simp: validate_poll_def require_fields_none_missing first_mistyped_def split: if_splits)
qed

text \<open>
  C4, as the code has it. Let the first violation of a poll list, in poll-major and
  option-minor order, be an option object that misses a required field: the polls before
  are well-formed, the poll itself has no violation of its own, the options before are
  well-formed, and \<open>f\<close> is the first of id, text, poll_id that the option misses. Then
  fetch_polls_with_validation fails with the \<^verbatim>\<open>ValueError\<close> whose message names the
  poll index, the option index and \<open>f\<close>.
\<close>

theorem first_option_violation_reported:
  assumes "list_all wf_poll good"
    and "poll_violation kvs = None"
    and "map_of kvs ''options'' = Some (JList (ogood @ JObj okvs # orest))"
    and "list_all wf_option ogood"
    and "first_missing [''id'', ''text'', ''poll_id''] okvs = Some f"
  shows "fails_with_text (fetch_polls_with_validation (ok (JList (good @ JObj kvs # rest))))
           (option_violation_text (length good) (length ogood) f)"
proof -
  from assms(5) have "first_missing option_required_fields okvs = Some f"
    by (simp add: option_required_fields_def)
  from validate_options_fail_fast [OF assms(4) this, of "length good" 0 orest]
  obtain m where "validate_options (length good) 0 (ogood @ JObj okvs # orest) = Inl (ValueError m)"
    and "render m = Some (option_violation_text (length good) (length ogood) f)"
    by auto
  then show ?thesis
    by (simp add: fails_with_text_def fetch_polls_with_validation_def fetch_polls_ok
        validate_polls_fail_fast [OF assms(1)] validate_poll_options [OF assms(2,3)])
qed

theorem first_option_violation_reported_witness:
  "fails_with_text
     (fetch_polls_with_validation (ok (JList
        [sample_poll,
         JObj [(''id'', JInt 2), (''question'', JStr ''Q''), (''created_at'', JNull), (''owner_id'', JInt 1),
               (''options'', JList [sample_option, JObj [(''id'', JInt 4), (''poll_id'', JInt 2)], JNull])],
         JNull])))
     ''Poll 1, option 1 is missing required field: text''"
  using first_option_violation_reported [of "[sample_poll]"
      "[(''id'', JInt 2), (''question'', JStr ''Q''), (''created_at'', JNull), (''owner_id'', JInt 1),
        (''options'', JList [sample_option, JObj [(''id'', JInt 4), (''poll_id'', JInt 2)], JNull])]"
      "[sample_option]" "[(''id'', JInt 4), (''poll_id'', JInt 2)]" "[JNull]" "''text''" "[JNull]"]
    wf_sample_poll
  by (simp add: poll_violation_None_iff first_missing_def option_violation_text_def
      sample_option_def str_nat.simps digit_char_def)

text \<open>
  C4, as the claim words it, fails: in this list the only poll misses id and its only
  option misses text; the error names the poll and id, and neither the option nor text.
\<close>

theorem option_violation_masked_counterexample:
  "fails_with_text
     (fetch_polls_with_validation (ok (JList
        [JObj [(''question'', JStr ''Q''), (''created_at'', JNull), (''owner_id'', JInt 1),
               (''options'', JList [JObj [(''id'', JInt 1), (''poll_id'', JInt 1)]])]])))
     ''Poll at index 0 is missing required field: id'' \<and>
   \<not> fails_with_text
     (fetch_polls_with_validation (ok (JList
        [JObj [(''question'', JStr ''Q''), (''created_at'', JNull), (''owner_id'', JInt 1),
               (''options'', JList [JObj [(''id'', JInt 1), (''poll_id'', JInt 1)]])]])))
     (option_violation_text 0 0 ''text'') \<and>
   \<not> sublist ''option'' ''Poll at index 0 is missing required field: id'' \<and>
   \<not> sublist ''text'' ''Poll at index 0 is missing required field: id''"
  by (simp add: fails_with_text_def fetch_polls_with_validation_def fetch_polls_ok validate_poll_def
      required_fields_def option_violation_text_def str_int_def str_nat.simps digit_char_def
      sublist_code(3))

section \<open>Validation of poll results\<close>







section \<open>Error bodies\<close>

text \<open>
  C2, as the code has it. On a response with a status other than 200 whose body cannot be
  decoded: fetch_polls fails with the message \<^verbatim>\<open>Failed to fetch polls: HTTP <status>\<close>;
  vote_on_poll, on a status other than 401 and 404, with
  \<^verbatim>\<open>Failed to vote on poll: HTTP <status>\<close>; get_poll_results, on a status other than
  404, with \<^verbatim>\<open>Failed to get poll results: HTTP <status>\<close>. Each of these messages
  contains the decimal status code, and none of the three raises a decoding error.
\<close>

theorem undecodable_error_body_fallback:
  assumes "status_code r \<noteq> 200" and "json r = Inl s"
  shows "fails_with_text (fetch_polls (Responds r))
           (''Failed to fetch polls: HTTP '' @ str_int (status_code r)) \<and>
         names_status (fetch_polls (Responds r)) (status_code r) \<and>
         (status_code r \<noteq> 401 \<and> status_code r \<noteq> 404 \<longrightarrow>
            fails_with_text (vote_on_poll (Responds r))
              (''Failed to vote on poll: HTTP '' @ str_int (status_code r)) \<and>
            names_status (vote_on_poll (Responds r)) (status_code r)) \<and>
         (status_code r \<noteq> 404 \<longrightarrow>
            fails_with_text (get_poll_results (Responds r))
              (''Failed to get poll results: HTTP '' @ str_int (status_code r)) \<and>
            names_status (get_poll_results (Responds r)) (status_code r))"
proof -
  let ?sc = "status_code r"
  have fetch: "fetch_polls (Responds r) =
      Inl (ValueError [Lit ''Failed to fetch polls: '', Lit ''HTTP '', Fmt (JInt ?sc)])"
    using assms by (simp add: fetch_polls_def error_message_undecodable)
  have vote: "vote_on_poll (Responds r) =
      Inl (ValueError [Lit ''Failed to vote on poll: '', Lit ''HTTP '', Fmt (JInt ?sc)])"
    if "?sc \<noteq> 401" "?sc \<noteq> 404"
    using assms that by (simp add: vote_on_poll_def error_message_undecodable)
  have results: "get_poll_results (Responds r) =
      Inl (ValueError [Lit ''Failed to get poll results: '', Lit ''HTTP '', Fmt (JInt ?sc)])"
    if "?sc \<noteq> 404"
    using assms that by (simp add: get_poll_results_def error_message_undecodable)
  have rendered: "render [Lit p, Lit ''HTTP '', Fmt (JInt ?sc)] = Some ((p @ ''HTTP '') @ str_int ?sc)" for p
    by simp
  show ?thesis
  proof (intro conjI impI; (elim conjE)?)
    show "fails_with_text (fetch_polls (Responds r)) (''Failed to fetch polls: HTTP '' @ str_int ?sc)"
      by (rule fails_with_textI [OF fetch]) simp
    show "names_status (fetch_polls (Responds r)) ?sc"
      by (rule names_statusI [OF fetch rendered])
  next
    assume "?sc \<noteq> 401" "?sc \<noteq> 404"
    note v = vote [OF this]
    show "fails_with_text (vote_on_poll (Responds r)) (''Failed to vote on poll: HTTP '' @ str_int ?sc)"
      by (rule fails_with_textI [OF v]) simp
    show "names_status (vote_on_poll (Responds r)) ?sc"
      by (rule names_statusI [OF v rendered])
  next
    assume "?sc \<noteq> 404"
    note g = results [OF this]
    show "fails_with_text (get_poll_results (Responds r)) (''Failed to get poll results: HTTP '' @ str_int ?sc)"
      by (rule fails_with_textI [OF g]) simp
    show "names_status (get_poll_results (Responds r)) ?sc"
      by (rule names_statusI [OF g rendered])
  qed
qed

theorem undecodable_error_body_fallback_witness:
  "fails_with_text (fetch_polls (Responds \<lparr>status_code = 503, json = Inl ''Expecting value''\<rparr>))
     ''Failed to fetch polls: HTTP 503'' \<and>
   fails_with_text (vote_on_poll (Responds \<lparr>status_code = 503, json = Inl ''Expecting value''\<rparr>))
     ''Failed to vote on poll: HTTP 503'' \<and>
   fails_with_text (get_poll_results (Responds \<lparr>status_code = 503, json = Inl ''Expecting value''\<rparr>))
     ''Failed to get poll results: HTTP 503''"
  using undecodable_error_body_fallback [of "\<lparr>status_code = 503, json = Inl ''Expecting value''\<rparr>" "''Expecting value''"]
  by (simp add: str_int_def str_nat.simps digit_char_def)

text \<open>
  C2, as the claim words it, fails. With an empty body and status 404, vote_on_poll fails
  with \<^verbatim>\<open>Poll or option not found\<close>, a message without the status code. With an
  undecodable body and status 500, register_user leaves with the decoding error itself.
\<close>

theorem fallback_without_status_counterexample:
  "fails_with_text (vote_on_poll (Responds \<lparr>status_code = 404, json = Inl []\<rparr>)) ''Poll or option not found'' \<and>
   \<not> names_status (vote_on_poll (Responds \<lparr>status_code = 404, json = Inl []\<rparr>)) 404 \<and>
   register_user (Responds \<lparr>status_code = 500, json = Inl ''Expecting value''\<rparr>)
     = Inl (JSONDecodeError ''Expecting value'') \<and>
   \<not> names_status (register_user (Responds \<lparr>status_code = 500, json = Inl ''Expecting value''\<rparr>)) 500"
  by (simp add: vote_on_poll_def register_user_def response_json_def fails_with_text_def names_status_def
      str_int_def str_nat.simps digit_char_def sublist_code(3))

text \<open>
  C6, as the code has it. On a response with a status other than 200 whose body decodes
  to an object: without a detail, register_user fails with
  \<^verbatim>\<open>Registration failed: Unknown error\<close>; with a string detail, it fails with
  \<^verbatim>\<open>Username already registered\<close> when the status is 400 and the detail contains that
  text, and with \<^verbatim>\<open>Registration failed: <detail>\<close> otherwise; and on a status other than
  400 it fails with the registration-failed error carrying the detail, of whatever type.
\<close>

theorem register_error_mapping:
  assumes "status_code r \<noteq> 200" and "json r = Inr (JObj kvs)"
  shows "(map_of kvs ''detail'' = None \<longrightarrow>
            fails_with_text (register_user (Responds r)) ''Registration failed: Unknown error'') \<and>
         (map_of kvs ''detail'' = Some (JStr d) \<longrightarrow>
            (status_code r = 400 \<and> sublist ''Username already registered'' d \<longrightarrow>
               fails_with_text (register_user (Responds r)) ''Username already registered'') \<and>
            (\<not> (status_code r = 400 \<and> sublist ''Username already registered'' d) \<longrightarrow>
               fails_with_text (register_user (Responds r)) (''Registration failed: '' @ d))) \<and>
         (status_code r \<noteq> 400 \<and> map_of kvs ''detail'' = Some v \<longrightarrow>
            register_user (Responds r) = Inl (ValueError [Lit ''Registration failed: '', Fmt v]))"
  using assms
  by (auto simp: register_user_def response_json_def fails_with_text_def)

theorem register_error_mapping_witness:
  "fails_with_text (register_user (Responds \<lparr>status_code = 400, json = Inr (JObj [(''detail'', JStr ''Username already registered'')])\<rparr>))
     ''Username already registered'' \<and>
   fails_with_text (register_user (Responds \<lparr>status_code = 422, json = Inr (JObj [(''detail'', JStr ''too short'')])\<rparr>))
     ''Registration failed: too short'' \<and>
   fails_with_text (register_user (Responds \<lparr>status_code = 500, json = Inr (JObj [])\<rparr>))
     ''Registration failed: Unknown error''"
  using register_error_mapping [of "\<lparr>status_code = 400, json = Inr (JObj [(''detail'', JStr ''Username already registered'')])\<rparr>"
          "[(''detail'', JStr ''Username already registered'')]" "''Username already registered''" JNull]
    register_error_mapping [of "\<lparr>status_code = 422, json = Inr (JObj [(''detail'', JStr ''too short'')])\<rparr>"
          "[(''detail'', JStr ''too short'')]" "''too short''" "JStr ''too short''"]
    register_error_mapping [of "\<lparr>status_code = 500, json = Inr (JObj [])\<rparr>" "[]" "[]" JNull]
  by (simp add: fails_with_text_def)

text \<open>
  C6, as the claim words it, fails on bodies that decode to JSON but not to an object with
  a string detail: on status 400 the body \<^verbatim>\<open>[]\<close> ends in an \<^verbatim>\<open>AttributeError\<close> and the
  body \<^verbatim>\<open>{"detail": 42}\<close> in a \<^verbatim>\<open>TypeError\<close>, neither of them a registration error.
\<close>

theorem register_error_mapping_counterexample:
  "register_user (Responds \<lparr>status_code = 400, json = Inr (JList [])\<rparr>) = Inl AttributeError \<and>
   \<not> fails_with_text (register_user (Responds \<lparr>status_code = 400, json = Inr (JList [])\<rparr>))
        ''Registration failed: Unknown error'' \<and>
   register_user (Responds \<lparr>status_code = 400, json = Inr (JObj [(''detail'', JInt 42)])\<rparr>) = Inl TypeError \<and>
   \<not> fails_with_text (register_user (Responds \<lparr>status_code = 400, json = Inr (JObj [(''detail'', JInt 42)])\<rparr>))
        ''Registration failed: 42''"
  by (simp add: register_user_def response_json_def fails_with_text_def)

section \<open>Status codes 401 and 404\<close>

text \<open>
  C7. A response with status 401 makes vote_on_poll fail with the Unauthorized error,
  whatever the body is: undecodable, not an object, with or without a detail.
\<close>

theorem vote_401_unauthorized:
  "status_code r = 401 \<Longrightarrow>
   vote_on_poll (Responds r) = Inl (ValueError [Lit ''Unauthorized: Invalid or expired access token''])"
  by (simp add: vote_on_poll_def)

theorem vote_401_unauthorized_witness:
  "vote_on_poll (Responds \<lparr>status_code = 401, json = Inl ''Expecting value''\<rparr>)
     = Inl (ValueError [Lit ''Unauthorized: Invalid or expired access token''])
   \<and> vote_on_poll (Responds \<lparr>status_code = 401, json = Inr (JList [JInt 3])\<rparr>)
     = Inl (ValueError [Lit ''Unauthorized: Invalid or expired access token''])
   \<and> vote_on_poll (Responds \<lparr>status_code = 401, json = Inr (JObj [(''detail'', JStr ''expired'')])\<rparr>)
     = Inl (ValueError [Lit ''Unauthorized: Invalid or expired access token''])"
  by (intro conjI; rule vote_401_unauthorized) simp_all

text \<open>
  C8. A response with status 404 makes vote_on_poll and get_poll_results fail with their
  NotFound errors.
\<close>

theorem status_404_not_found:
  "status_code r = 404 \<Longrightarrow>
   vote_on_poll (Responds r) = Inl (ValueError [Lit ''Poll or option not found'']) \<and>
   get_poll_results (Responds r) = Inl (ValueError [Lit ''Poll not found''])"
  by (simp add: vote_on_poll_def get_poll_results_def)

theorem status_404_not_found_witness:
  "vote_on_poll (Responds \<lparr>status_code = 404, json = Inr (JObj [(''detail'', JStr ''gone'')])\<rparr>)
     = Inl (ValueError [Lit ''Poll or option not found'']) \<and>
   get_poll_results (Responds \<lparr>status_code = 404, json = Inr (JObj [(''detail'', JStr ''gone'')])\<rparr>)
     = Inl (ValueError [Lit ''Poll not found''])"
  by (rule status_404_not_found) simp

section \<open>What the success paths do not check\<close>

text \<open>
  C10. On an HTTP 200 response whose body is an object with the keys id, user_id,
  option_id and created_at, vote_on_poll returns that object as it is; the values under
  the keys are not looked at.
\<close>

theorem vote_presence_only:
  "map_of kvs ''id'' \<noteq> None \<Longrightarrow> map_of kvs ''user_id'' \<noteq> None \<Longrightarrow>
   map_of kvs ''option_id'' \<noteq> None \<Longrightarrow> map_of kvs ''created_at'' \<noteq> None \<Longrightarrow>
   vote_on_poll (ok (JObj kvs)) = Inr (JObj kvs)"
  by (simp add: vote_on_poll_def ok_def response_json_def vote_required_fields_def)

theorem vote_presence_only_witness:
  "vote_on_poll (ok (JObj [(''id'', JStr ''nine''), (''user_id'', JNull),
                           (''option_id'', JList []), (''created_at'', JInt 0)]))
   = Inr (JObj [(''id'', JStr ''nine''), (''user_id'', JNull),
                (''option_id'', JList []), (''created_at'', JInt 0)])"
  by (rule vote_presence_only) simp_all

end
